theory Spec2Isabelle
  imports Complex_Main "HOL-Library.Char_ord" "HOL-Library.List_Lexorder"
begin

section \<open>Strings and numbers of the host language\<close>

text \<open>
  A \<^typ>\<open>string\<close> stands for a JavaScript string whose code units are all below 256; a
  \<^typ>\<open>char\<close> is one code unit. Counts (stars, line numbers, match counts, byte sizes) are
  non-negative integers, so they are \<^typ>\<open>nat\<close>; a template literal renders such a number
  in decimal (the host language does so for every whole number below \<open>10\<^sup>2\<^sup>1\<close>).
\<close>

definition backslash :: char where
  "backslash = CHR 0x5C"

definition digit_char :: "nat \<Rightarrow> char" where
  "digit_char d = ''0123456789'' ! d"

function show_nat :: "nat \<Rightarrow> string" where
  "show_nat n = (if n < 10 then [digit_char n] else show_nat (n div 10) @ [digit_char (n mod 10)])"
  by pat_completeness auto
termination
  by (relation "measure (\<lambda>n. n)") auto

declare show_nat.simps [simp del]

text \<open>\<open>Array.prototype.join\<close> on an array of strings.\<close>

fun join :: "string \<Rightarrow> string list \<Rightarrow> string" where
  "join sep [] = []"
| "join sep [x] = x"
| "join sep (x # y # ys) = x @ sep @ join sep (y # ys)"

text \<open>
  \<open>String.prototype.trim\<close>: the white space and line terminators among the code units
  below 256 are TAB, LF, VT, FF, CR, SPACE and NBSP.
\<close>

definition is_js_space :: "char \<Rightarrow> bool" where
  "is_js_space c = (c \<in> set [CHR 0x09, CHR 0x0A, CHR 0x0B, CHR 0x0C, CHR 0x0D, CHR 0x20, CHR 0xA0])"

definition trim :: "string \<Rightarrow> string" where
  "trim s = rev (dropWhile is_js_space (rev (dropWhile is_js_space s)))"

text \<open>\<open>String.prototype.endsWith\<close>.\<close>

definition endsWith :: "string \<Rightarrow> string \<Rightarrow> bool" where
  "endsWith s suffix = (length suffix \<le> length s \<and> drop (length s - length suffix) s = suffix)"

text \<open>An optional string as a condition: \<open>undefined\<close> and the empty string are falsy.\<close>

fun truthy :: "string option \<Rightarrow> bool" where
  "truthy None = False"
| "truthy (Some s) = (s \<noteq> [])"

section \<open>Query escaping and drill-down clauses\<close>

text \<open>
  \<open>const regexpRe = /[-\\^$*+?.()|[\]{}]/g\<close>: a character class, so the pattern matches
  exactly one code unit.
\<close>

definition regexpRe :: "char \<Rightarrow> bool" where
  "regexpRe c = (c \<in> set [CHR ''-'', backslash, CHR ''^'', CHR ''$'', CHR ''*'', CHR ''+'',
     CHR ''?'', CHR ''.'', CHR ''('', CHR '')'', CHR ''|'', CHR ''['', CHR '']'', CHR ''{'', CHR ''}''])"

text \<open>
  \<open>text.replace(regexpRe, "\\$&")\<close>: a global replace scans from left to right and puts, in
  place of each match, a backslash followed by the matched text.
\<close>

fun escapeRegexp :: "string \<Rightarrow> string" where
  "escapeRegexp [] = []"
| "escapeRegexp (c # cs) =
     (if regexpRe c then backslash # c # escapeRegexp cs else c # escapeRegexp cs)"

record DrilldownOpts =
  repo :: "string option"
  revision :: "string option"
  "file" :: "string option"

text \<open>
  The \<open>clauses\<close> array that \<open>makeDrilldownAction\<close> builds. An optional string in a
  condition is falsy when it is \<open>undefined\<close> and when it is the empty string.
\<close>

definition drilldownClauses :: "DrilldownOpts \<Rightarrow> string list" where
  "drilldownClauses opts =
     (let clauses = [];
          clauses =
            (case repo opts of
               None \<Rightarrow> clauses
             | Some r \<Rightarrow>
                 if r = [] then clauses
                 else
                   (let repoQuery = ''r:^'' @ escapeRegexp r @ ''$'';
                        repoQuery =
                          (case revision opts of
                             None \<Rightarrow> repoQuery
                           | Some v \<Rightarrow> if v = [] then repoQuery else repoQuery @ ''@'' @ v)
                    in clauses @ [repoQuery]));
          clauses =
            (case file opts of
               None \<Rightarrow> clauses
             | Some f \<Rightarrow> if f = [] then clauses else clauses @ [''f:'' @ escapeRegexp f])
      in clauses)"

text \<open>
  The action made by \<open>makeDrilldownAction\<close> is modelled by the text that its
  \<open>onAction\<close> hands to \<open>setSearchText\<close>.
\<close>

definition makeDrilldownAction :: "DrilldownOpts \<Rightarrow> string" where
  "makeDrilldownAction opts = join '' '' (drilldownClauses opts) @ '' ''"

section \<open>Matches and result items\<close>

text \<open>
  The match types are declared in the stream module; the fields are the ones this component
  reads. Every match carries \<open>repository\<close> and the optional \<open>repoStars\<close>. The field
  \<open>private\<close> of a repo match is \<open>isPrivate\<close> here.
\<close>

text \<open>
  The platform's \<open>URL\<close> object. A URL is kept in parsed form: the text before the query, the
  ordered list of query parameters, and the fragment. \<open>new URL(url)\<close> and \<open>toString()\<close>
  move between a string and this form and belong to the platform.
\<close>

record URL =
  base :: string
  searchParams :: "(string \<times> string) list"
  hash :: string

record LineMatch =
  line :: string
  lineNumber :: nat

record SymbolInfo =
  name :: string
  containerName :: string
  kind :: string
  url :: URL

datatype Match =
    RepoMatch (repository: string) (repoStars: "nat option") (description: "string option")
      (fork: bool) (archived: bool) (isPrivate: bool) (branches: "string list option")
  | CommitMatch (repository: string) (repoStars: "nat option") (message: string)
      (authorName: string) (authorDate: string) (oid: string)
  | PathMatch (repository: string) (repoStars: "nat option") (path: string)
      (commit: "string option")
  | ContentMatch (repository: string) (repoStars: "nat option") (path: string)
      (lineMatches: "LineMatch list")
  | SymbolMatch (repository: string) (repoStars: "nat option") (path: string)
      (symbols: "SymbolInfo list")

datatype IconSource = Dot | Circle | XmarkCircle | MemoryChip | TextDocument | Text | Link | Star

datatype Color = ColorDefault | ColorEmphasis | ColorPrivate

record Accessory =
  "text" :: string
  icon :: "IconSource option"

record ResultItem =
  title :: string
  subtitle :: string
  itemIcon :: IconSource
  tintColor :: Color
  accessories :: "Accessory list"
  drilldownAction :: string

text \<open>
  The accessory of a result item: it starts as the repository name, and the \<open>repo\<close> case
  replaces it. \<open>if (match.repoStars)\<close> is false for \<open>undefined\<close> and for \<open>0\<close>.
\<close>

fun accessoryOf :: "Match \<Rightarrow> Accessory" where
  "accessoryOf (RepoMatch rp stars d fk ar pr br) =
     (case stars of
        None \<Rightarrow> \<lparr>text = [], icon = None\<rparr>
      | Some n \<Rightarrow>
          if n \<noteq> 0 then \<lparr>text = show_nat n, icon = Some Star\<rparr> else \<lparr>text = [], icon = None\<rparr>)"
| "accessoryOf m = \<lparr>text = repository m, icon = None\<rparr>"

text \<open>
  \<open>SearchResultItem\<close>: the \<open>switch\<close> over \<open>match.type\<close> has one case for each of the five
  match types and no \<open>default\<close>. The accessory is listed when its text or its icon is set.
\<close>

fun SearchResultItem :: "Match \<Rightarrow> ResultItem" where
  "SearchResultItem (RepoMatch rp stars d fk ar pr br) =
     (let m = RepoMatch rp stars d fk ar pr br; accessory = accessoryOf m
      in \<lparr>title = rp,
          subtitle = (case d of None \<Rightarrow> [] | Some t \<Rightarrow> t),
          itemIcon = (let src = Dot; src = (if fk then Circle else src);
                          src = (if ar then XmarkCircle else src) in src),
          tintColor = (if pr then ColorPrivate else ColorDefault),
          accessories = (if text accessory \<noteq> [] \<or> icon accessory \<noteq> None then [accessory] else []),
          drilldownAction = makeDrilldownAction \<lparr>repo = Some rp, revision = None, file = None\<rparr>\<rparr>)"
| "SearchResultItem (CommitMatch rp stars msg an ad oi) =
     (let m = CommitMatch rp stars msg an ad oi; accessory = accessoryOf m
      in \<lparr>title = msg,
          subtitle = ad,
          itemIcon = MemoryChip,
          tintColor = ColorDefault,
          accessories = (if text accessory \<noteq> [] \<or> icon accessory \<noteq> None then [accessory] else []),
          drilldownAction = makeDrilldownAction \<lparr>repo = Some rp, revision = Some oi, file = None\<rparr>\<rparr>)"
| "SearchResultItem (PathMatch rp stars pa co) =
     (let m = PathMatch rp stars pa co; accessory = accessoryOf m
      in \<lparr>title = pa,
          subtitle = [],
          itemIcon = TextDocument,
          tintColor = ColorDefault,
          accessories = (if text accessory \<noteq> [] \<or> icon accessory \<noteq> None then [accessory] else []),
          drilldownAction = makeDrilldownAction \<lparr>repo = Some rp, revision = None, file = Some pa\<rparr>\<rparr>)"
| "SearchResultItem (ContentMatch rp stars pa ls) =
     (let m = ContentMatch rp stars pa ls; accessory = accessoryOf m
      in \<lparr>title = join '' ... '' (map (\<lambda>l. trim (line l)) ls),
          subtitle = pa,
          itemIcon = Text,
          tintColor = ColorDefault,
          accessories = (if text accessory \<noteq> [] \<or> icon accessory \<noteq> None then [accessory] else []),
          drilldownAction = makeDrilldownAction \<lparr>repo = Some rp, revision = None, file = Some pa\<rparr>\<rparr>)"
| "SearchResultItem (SymbolMatch rp stars pa sy) =
     (let m = SymbolMatch rp stars pa sy; accessory = accessoryOf m
      in \<lparr>title = join '', '' (map name sy),
          subtitle = pa,
          itemIcon = Link,
          tintColor = ColorDefault,
          accessories = (if text accessory \<noteq> [] \<or> icon accessory \<noteq> None then [accessory] else []),
          drilldownAction = makeDrilldownAction \<lparr>repo = Some rp, revision = None, file = Some pa\<rparr>\<rparr>)"

section \<open>Result URLs and the multi result view\<close>

text \<open>
  \<open>URLSearchParams.set\<close>: the first pair with the name takes the value and the later pairs
  with the name are removed; without such a pair, the new pair is appended.
\<close>

fun params_set :: "string \<Rightarrow> string \<Rightarrow> (string \<times> string) list \<Rightarrow> (string \<times> string) list" where
  "params_set n v [] = [(n, v)]"
| "params_set n v ((k, w) # ps) =
     (if k = n then (n, v) # filter (\<lambda>p. fst p \<noteq> n) ps else (k, w) # params_set n v ps)"

text \<open>
  \<open>URLSearchParams.sort\<close>: a stable sort by name, names compared by code units.
\<close>

definition params_sort :: "(string \<times> string) list \<Rightarrow> (string \<times> string) list" where
  "params_sort ps = sort_key fst ps"

definition urlWithLineNumber :: "URL \<Rightarrow> nat \<Rightarrow> URL" where
  "urlWithLineNumber u lineNo =
     (let parsed = u;
          parsed = parsed\<lparr>searchParams := params_set (''L'' @ show_nat lineNo) [] (searchParams parsed)\<rparr>;
          parsed = parsed\<lparr>searchParams := params_sort (searchParams parsed)\<rparr>
      in parsed)"

record SearchResult =
  url :: URL
  "match" :: Match

record SubItem =
  itemTitle :: string
  target :: URL

text \<open>
  \<open>MultiResultView\<close> takes content and symbol matches only (its parameter type has no other
  match type): the list of sub-items with the URL that each one's actions open.
\<close>

fun MultiResultView :: "URL \<Rightarrow> Match \<Rightarrow> SubItem list option" where
  "MultiResultView u (ContentMatch rp stars pa ls) =
     Some (map (\<lambda>l. \<lparr>itemTitle = line l, target = urlWithLineNumber u (lineNumber l)\<rparr>) ls)"
| "MultiResultView u (SymbolMatch rp stars pa sy) =
     Some (map (\<lambda>s. \<lparr>itemTitle = name s, target = SymbolInfo.url s\<rparr>) sy)"
| "MultiResultView u m = None"

section \<open>Detail view\<close>

text \<open>
  \<open>bold\<close>, \<open>codeBlock\<close> and \<open>quoteBlock\<close> come from the markdown module; they are taken as
  parameters.
\<close>

record Markdown =
  bold :: "string \<Rightarrow> string"
  codeBlock :: "string \<Rightarrow> string"
  quoteBlock :: "string \<Rightarrow> string"

record BlobContents =
  path :: string
  content :: string
  binary :: bool
  byteSize :: nat

text \<open>
  A number in a template literal. \<open>byteSize / 1024\<close> is exact, so the quotient is a rational;
  a whole number is rendered in decimal, and the rendering of a fraction is the parameter
  \<open>fmt\<close>.
\<close>

definition numberToString :: "(rat \<Rightarrow> string) \<Rightarrow> rat \<Rightarrow> string" where
  "numberToString fmt q =
     (if 0 \<le> q \<and> rat_of_int \<lfloor>q\<rfloor> = q then show_nat (nat \<lfloor>q\<rfloor>) else fmt q)"

definition renderBlob :: "Markdown \<Rightarrow> (rat \<Rightarrow> string) \<Rightarrow> BlobContents option \<Rightarrow> string" where
  "renderBlob md fmt blob =
     (case blob of
        None \<Rightarrow> quoteBlock md ''Blob not found''
      | Some b \<Rightarrow>
          if binary b then quoteBlock md ''File preview is not yet supported for binary files.''
          else if content b \<noteq> [] then
            (let blobSizeKB = rat_of_nat (byteSize b) / 1024
             in if blobSizeKB > 50 then
                  quoteBlock md (''File too large to render ('' @ numberToString fmt blobSizeKB @ ''KB)'')
                else if endsWith (BlobContents.path b) ''.md'' then content b
                else codeBlock md (content b))
          else quoteBlock md ''No content found'')"

text \<open>
  The result of the lazy query: whether it was called, its data (\<open>None\<close> while there is
  none; otherwise the blob that \<open>data.repository?.commit?.blob\<close> reads, itself absent when
  the chain ends early) and its error, as the text that a template literal renders.
\<close>

record FileContents =
  called :: bool
  data :: "BlobContents option option"
  error :: "string option"

text \<open>The variables of the query: \<open>repo\<close>, \<open>rev\<close> and \<open>path\<close>, in this order.\<close>

datatype FetchRequest = GetFileContents string string string

datatype View =
    MultiView "SubItem list"
  | DetailView (markdown: string) (fetch: "FetchRequest option")

definition newline :: char where
  "newline = CHR 0x0A"

definition separator :: string where
  "separator = [newline, newline] @ ''---'' @ [newline, newline]"

text \<open>
  \<open>ResultView\<close>: the view and, for the first rendering of a repo or path match, the fetch it
  starts. The \<open>default\<close> case of its \<open>switch\<close> is for match types other than the five and
  has no counterpart here.
\<close>

fun ResultView :: "Markdown \<Rightarrow> (rat \<Rightarrow> string) \<Rightarrow> SearchResult \<Rightarrow> FileContents \<Rightarrow> View" where
  "ResultView md fmt sr fileContents =
     (let markdownTitle = bold md (repository (match sr))
      in case match sr of
           ContentMatch rp stars pa ls \<Rightarrow>
             MultiView (case MultiResultView (SearchResult.url sr) (match sr) of
                          None \<Rightarrow> [] | Some items \<Rightarrow> items)
         | SymbolMatch rp stars pa sy \<Rightarrow>
             MultiView (case MultiResultView (SearchResult.url sr) (match sr) of
                          None \<Rightarrow> [] | Some items \<Rightarrow> items)
         | RepoMatch rp stars d fk ar pr br \<Rightarrow>
             (let markdownContent = (case d of None \<Rightarrow> [] | Some t \<Rightarrow> t)
              in if \<not> called fileContents then
                   DetailView (markdownTitle @ [newline, newline] @ markdownContent)
                     (Some (GetFileContents rp
                        (case br of None \<Rightarrow> [] | Some [] \<Rightarrow> [] | Some (b # bs) \<Rightarrow> b)
                        ''README.md''))
                 else
                   (case data fileContents of
                      Some blob \<Rightarrow>
                        DetailView (markdownTitle @ [newline, newline] @ markdownContent
                          @ separator @ renderBlob md fmt blob) None
                    | None \<Rightarrow>
                        DetailView (markdownTitle @ [newline, newline] @ markdownContent) None))
         | PathMatch rp stars pa co \<Rightarrow>
             (let markdownContent = codeBlock md pa @ separator
              in if \<not> called fileContents then
                   DetailView (markdownTitle @ [newline, newline] @ markdownContent)
                     (Some (GetFileContents rp (case co of None \<Rightarrow> [] | Some c \<Rightarrow> c) pa))
                 else
                   (case data fileContents of
                      Some blob \<Rightarrow>
                        DetailView (markdownTitle @ [newline, newline] @ markdownContent
                          @ renderBlob md fmt blob) None
                    | None \<Rightarrow>
                        (case error fileContents of
                           Some e \<Rightarrow>
                             DetailView (markdownTitle @ [newline, newline] @ markdownContent
                               @ quoteBlock md (''Failed to fetch file: '' @ e)) None
                         | None \<Rightarrow>
                             DetailView (markdownTitle @ [newline, newline] @ markdownContent) None)))
         | CommitMatch rp stars msg an ad oi \<Rightarrow>
             DetailView (markdownTitle @ [newline, newline] @ msg) None)"

section \<open>Search session\<close>

text \<open>
  The types of the stream module, with the fields this component reads: a suggestion has a
  title, an optional description and an optional query; an alert has a title and an optional
  description; \<open>duration\<close> of a progress event is the text that the template literal renders.
\<close>

datatype PatternType = literal | regexp | structural

datatype Suggestion = Suggestion string "string option" "string option"

datatype Alert = Alert string "string option"

record Progress =
  matchCount :: nat
  duration :: string

record SearchState =
  results :: "SearchResult list"
  suggestions :: "Suggestion list"
  summary :: "string option"
  isLoading :: bool

text \<open>The notification that \<open>ExpandableErrorToast(push, ...).show()\<close> displays.\<close>

datatype Toast = ExpandableErrorToast string string string

text \<open>
  What \<open>useSearch\<close> holds. An \<open>AbortController\<close> is identified by the number of controllers
  created before it; \<open>cancelRef\<close> is the current one, \<open>aborted\<close> lists the controllers whose
  \<open>abort()\<close> was called, \<open>requests\<close> the calls of \<open>performSearch\<close> with the controller whose
  signal each one received, and \<open>toasts\<close> the notifications shown so far.
\<close>

record Session =
  state :: SearchState
  cancelRef :: "nat option"
  controllers :: nat
  aborted :: "nat list"
  requests :: "(nat \<times> string \<times> PatternType) list"
  toasts :: "Toast list"

definition initial :: Session where
  "initial =
     \<lparr>state = \<lparr>results = [], suggestions = [], summary = Some [], isLoading = False\<rparr>,
      cancelRef = None, controllers = 0, aborted = [], requests = [], toasts = []\<rparr>"

text \<open>The state updaters that \<open>search\<close> and its callbacks pass to \<open>setState\<close>.\<close>

definition resetState :: "SearchState \<Rightarrow> SearchState" where
  "resetState oldState =
     oldState\<lparr>results := [], suggestions := [], summary := None, isLoading := True\<rparr>"

definition onResults :: "SearchResult list \<Rightarrow> SearchState \<Rightarrow> SearchState" where
  "onResults batch oldState = oldState\<lparr>results := results oldState @ batch\<rparr>"

definition onSuggestions :: "Suggestion list \<Rightarrow> bool \<Rightarrow> SearchState \<Rightarrow> SearchState" where
  "onSuggestions batch pushToTop oldState =
     oldState\<lparr>suggestions :=
       (if pushToTop then batch @ suggestions oldState else suggestions oldState @ batch)\<rparr>"

definition onProgress :: "Progress \<Rightarrow> SearchState \<Rightarrow> SearchState" where
  "onProgress progress oldState =
     oldState\<lparr>summary := Some (show_nat (matchCount progress) @ '' results in '' @ duration progress)\<rparr>"

definition notLoading :: "SearchState \<Rightarrow> SearchState" where
  "notLoading oldState = oldState\<lparr>isLoading := False\<rparr>"

definition alertToast :: "Alert \<Rightarrow> Toast" where
  "alertToast a =
     (case a of Alert t d \<Rightarrow>
        ExpandableErrorToast ''Alert'' t (case d of None \<Rightarrow> [] | Some x \<Rightarrow> x))"

text \<open>
  What happens to a session. \<open>Search\<close> is a call of \<open>search\<close> up to its \<open>await\<close>. The other
  events come from the transport and carry the generation they belong to, that is the
  controller whose signal the call of \<open>performSearch\<close> received: a callback of that call is
  invoked, or its promise is fulfilled (\<open>Resolved\<close>) or rejected with an error whose text
  \<open>String(error)\<close> is given (\<open>Rejected\<close>).
\<close>

datatype Event =
    Search string PatternType
  | OnResults nat "SearchResult list"
  | OnSuggestions nat "Suggestion list" bool
  | OnAlert nat Alert
  | OnProgress nat Progress
  | Resolved nat
  | Rejected nat string

fun generation_of :: "Event \<Rightarrow> nat option" where
  "generation_of (Search t p) = None"
| "generation_of (OnResults g b) = Some g"
| "generation_of (OnSuggestions g b pushToTop) = Some g"
| "generation_of (OnAlert g a) = Some g"
| "generation_of (OnProgress g p) = Some g"
| "generation_of (Resolved g) = Some g"
| "generation_of (Rejected g e) = Some g"

text \<open>
  \<open>search\<close> before the \<open>await\<close>: abort the current controller if there is one, make a new
  one, reset the state and call \<open>performSearch\<close> with the new signal.
\<close>

definition search :: "string \<Rightarrow> PatternType \<Rightarrow> Session \<Rightarrow> Session" where
  "search searchText pattern s =
     (let s = (case cancelRef s of None \<Rightarrow> s | Some c \<Rightarrow> s\<lparr>aborted := c # aborted s\<rparr>);
          c = controllers s;
          s = s\<lparr>cancelRef := Some c, controllers := Suc c\<rparr>;
          s = s\<lparr>state := resetState (state s)\<rparr>
      in s\<lparr>requests := requests s @ [(c, searchText, pattern)]\<rparr>)"

text \<open>
  The callbacks and the two continuations of the \<open>await\<close> are closures over \<open>setState\<close> and
  \<open>push\<close> only: none of them reads the signal or \<open>cancelRef\<close>, so the generation of an event
  has no part in what it does.
\<close>

fun deliver :: "Session \<Rightarrow> Event \<Rightarrow> Session" where
  "deliver s (Search t p) = search t p s"
| "deliver s (OnResults g batch) = s\<lparr>state := onResults batch (state s)\<rparr>"
| "deliver s (OnSuggestions g batch pushToTop) = s\<lparr>state := onSuggestions batch pushToTop (state s)\<rparr>"
| "deliver s (OnAlert g a) = s\<lparr>toasts := toasts s @ [alertToast a]\<rparr>"
| "deliver s (OnProgress g progress) = s\<lparr>state := onProgress progress (state s)\<rparr>"
| "deliver s (Resolved g) = s\<lparr>state := notLoading (state s)\<rparr>"
| "deliver s (Rejected g e) =
     (let s = s\<lparr>toasts := toasts s @ [ExpandableErrorToast ''Unexpected error'' ''Search failed'' e]\<rparr>
      in s\<lparr>state := notLoading (state s)\<rparr>)"

definition run :: "Session \<Rightarrow> Event list \<Rightarrow> Session" where
  "run s evs = foldl deliver s evs"

text \<open>
  The effect of an event on the search state alone, for folding a selection of events.
\<close>

fun fold_event :: "SearchState \<Rightarrow> Event \<Rightarrow> SearchState" where
  "fold_event st (Search t p) = resetState st"
| "fold_event st (OnResults g batch) = onResults batch st"
| "fold_event st (OnSuggestions g batch pushToTop) = onSuggestions batch pushToTop st"
| "fold_event st (OnAlert g a) = st"
| "fold_event st (OnProgress g progress) = onProgress progress st"
| "fold_event st (Resolved g) = notLoading st"
| "fold_event st (Rejected g e) = notLoading st"

text \<open>
  The generation of a stream callback; \<open>search\<close> itself and the settling of the promise of
  \<open>performSearch\<close> are not callbacks.
\<close>

fun callback_of :: "Event \<Rightarrow> nat option" where
  "callback_of (Search t p) = None"
| "callback_of (OnResults g b) = Some g"
| "callback_of (OnSuggestions g b pushToTop) = Some g"
| "callback_of (OnAlert g a) = Some g"
| "callback_of (OnProgress g p) = Some g"
| "callback_of (Resolved g) = None"
| "callback_of (Rejected g e) = None"

text \<open>
  A transport that honours cancellation: every callback it invokes belongs to a generation
  whose controller exists and has not been aborted when the callback is invoked. The promise
  of any call of \<open>performSearch\<close>, superseded or not, may settle at any time.
\<close>

definition live :: "Session \<Rightarrow> nat \<Rightarrow> bool" where
  "live s g = (g < controllers s \<and> g \<notin> set (aborted s))"

fun honours_abort :: "Session \<Rightarrow> Event list \<Rightarrow> bool" where
  "honours_abort s [] = True"
| "honours_abort s (e # es) =
     ((case callback_of e of None \<Rightarrow> True | Some g \<Rightarrow> live s g) \<and> honours_abort (deliver s e) es)"

section \<open>Notions used in the statements and proofs\<close>

text \<open>
  The search state right after \<open>search\<close> has reset it.
\<close>

definition fresh :: SearchState where
  "fresh = \<lparr>results = [], suggestions = [], summary = None, isLoading = True\<rparr>"

text \<open>
  In a session reached from \<open>initial\<close>, the controller in \<open>cancelRef\<close> is the only one that
  is live, and every aborted controller has been created.
\<close>

definition session_inv :: "Session \<Rightarrow> bool" where
  "session_inv s =
     ((\<forall>g. live s g = (cancelRef s = Some g)) \<and> (\<forall>g \<in> set (aborted s). g < controllers s))"

text \<open>All callbacks of a trace belong to generations below \<open>n\<close>.\<close>

definition earlier :: "Event list \<Rightarrow> nat \<Rightarrow> bool" where
  "earlier evs n = (\<forall>e \<in> set evs. \<forall>g. callback_of e = Some g \<longrightarrow> g < n)"

text \<open>Two search states with the same results, suggestions and summary.\<close>

definition same_content :: "SearchState \<Rightarrow> SearchState \<Rightarrow> bool" where
  "same_content a b =
     (results a = results b \<and> suggestions a = suggestions b \<and> summary a = summary b)"

text \<open>Sample values for evaluating the functions on concrete inputs.\<close>

definition sampleMarkdown :: Markdown where
  "sampleMarkdown =
     \<lparr>bold = (\<lambda>t. ''**'' @ t @ ''**''),
      codeBlock = (\<lambda>t. ''```'' @ [newline] @ t @ [newline] @ ''```''),
      quoteBlock = (\<lambda>t. ''> '' @ t)\<rparr>"

definition foo_result :: SearchResult where
  "foo_result =
     \<lparr>url = \<lparr>base = ''https://sourcegraph.com/github.com/a/foo/-/blob/foo.go'',
              searchParams = [], hash = []\<rparr>,
      match = PathMatch ''github.com/a/foo'' None ''foo.go'' None\<rparr>"

definition bar_result :: SearchResult where
  "bar_result =
     \<lparr>url = \<lparr>base = ''https://sourcegraph.com/github.com/a/bar/-/blob/bar.go'',
              searchParams = [], hash = []\<rparr>,
      match = PathMatch ''github.com/a/bar'' None ''bar.go'' None\<rparr>"

section \<open>Escaping: properties\<close>

lemma escapeRegexp_append: "escapeRegexp (xs @ ys) = escapeRegexp xs @ escapeRegexp ys"
  by (induction xs) auto

lemma escapeRegexp_concat:
  "escapeRegexp s = concat (map (\<lambda>c. if regexpRe c then [backslash, c] else [c]) s)"
  by (induction s) auto

text \<open>
  Claim C8. \<open>escapeRegexp\<close> puts a backslash before every occurrence of one of the fifteen
  characters \<open>- \ ^ $ * + ? . ( ) | [ ] { }\<close> and copies every other character, the path
  separator \<open>/\<close> among them; \<open>a.b*c\<close> becomes \<open>a\.b\*c\<close>.
\<close>

theorem escapeRegexp_spec:
  "escapeRegexp s =
     concat (map (\<lambda>c. if c \<in> {CHR ''-'', CHR 0x5C, CHR ''^'', CHR ''$'', CHR ''*'', CHR ''+'',
                              CHR ''?'', CHR ''.'', CHR ''('', CHR '')'', CHR ''|'', CHR ''['',
                              CHR '']'', CHR ''{'', CHR ''}''}
                       then [CHR 0x5C, c] else [c]) s)
   \<and> escapeRegexp ''a/b'' = ''a/b''
   \<and> escapeRegexp ''a.b*c'' = [CHR ''a'', CHR 0x5C, CHR ''.'', CHR ''b'', CHR 0x5C, CHR ''*'', CHR ''c'']"
proof (intro conjI)
  show "escapeRegexp s =
     concat (map (\<lambda>c. if c \<in> {CHR ''-'', CHR 0x5C, CHR ''^'', CHR ''$'', CHR ''*'', CHR ''+'',
                              CHR ''?'', CHR ''.'', CHR ''('', CHR '')'', CHR ''|'', CHR ''['',
                              CHR '']'', CHR ''{'', CHR ''}''}
                       then [CHR 0x5C, c] else [c]) s)"
    using escapeRegexp_concat [of s] unfolding regexpRe_def backslash_def by simp
  show "escapeRegexp ''a/b'' = ''a/b''"
    by (simp add: regexpRe_def backslash_def)
  show "escapeRegexp ''a.b*c'' = [CHR ''a'', CHR 0x5C, CHR ''.'', CHR ''b'', CHR 0x5C, CHR ''*'', CHR ''c'']"
    by (simp add: regexpRe_def backslash_def)
qed


section \<open>Drill-down clauses: properties\<close>

text \<open>
  Claim C7, as stated, at a repo that is present and empty: \<open>if (opts.repo)\<close> is false for
  the empty string, so no clause is emitted, and the action sets the search text to a single
  space.
\<close>

theorem drilldown_empty_repo_counterexample:
  "repo \<lparr>repo = Some [], revision = None, file = None\<rparr> = Some []
   \<and> drilldownClauses \<lparr>repo = Some [], revision = None, file = None\<rparr> = []
   \<and> makeDrilldownAction \<lparr>repo = Some [], revision = None, file = None\<rparr> = '' ''"
  by (simp add: drilldownClauses_def makeDrilldownAction_def)

text \<open>
  Claim C7, amended. A repo that is present and not empty gives the clause \<open>r:^\<close>, the escaped
  repo, \<open>$\<close>, followed by \<open>@\<close> and the revision as it is when the revision is present and not
  empty; a file that is present and not empty gives the clause \<open>f:\<close> and the escaped file;
  the clauses are joined by one space, the repo clause first. An absent or empty repo or file
  gives no clause. The action sets the search text to the joined clauses and one more space.
\<close>

theorem drilldown_clauses:
  "(repo opts = Some r \<and> r \<noteq> [] \<and> revision opts = Some v \<and> v \<noteq> [] \<and> file opts = Some f \<and> f \<noteq> [] \<longrightarrow>
      join '' '' (drilldownClauses opts) =
        ''r:^'' @ escapeRegexp r @ ''$'' @ ''@'' @ v @ '' '' @ ''f:'' @ escapeRegexp f)
   \<and> (repo opts = Some r \<and> r \<noteq> [] \<and> revision opts = Some v \<and> v \<noteq> [] \<and> \<not> truthy (file opts) \<longrightarrow>
      join '' '' (drilldownClauses opts) = ''r:^'' @ escapeRegexp r @ ''$'' @ ''@'' @ v)
   \<and> (repo opts = Some r \<and> r \<noteq> [] \<and> \<not> truthy (revision opts) \<and> file opts = Some f \<and> f \<noteq> [] \<longrightarrow>
      join '' '' (drilldownClauses opts) =
        ''r:^'' @ escapeRegexp r @ ''$'' @ '' '' @ ''f:'' @ escapeRegexp f)
   \<and> (repo opts = Some r \<and> r \<noteq> [] \<and> \<not> truthy (revision opts) \<and> \<not> truthy (file opts) \<longrightarrow>
      join '' '' (drilldownClauses opts) = ''r:^'' @ escapeRegexp r @ ''$'')
   \<and> (\<not> truthy (repo opts) \<and> file opts = Some f \<and> f \<noteq> [] \<longrightarrow>
      join '' '' (drilldownClauses opts) = ''f:'' @ escapeRegexp f)
   \<and> (\<not> truthy (repo opts) \<and> \<not> truthy (file opts) \<longrightarrow>
      join '' '' (drilldownClauses opts) = [])
   \<and> makeDrilldownAction opts = join '' '' (drilldownClauses opts) @ '' ''"
  by (cases "repo opts"; cases "revision opts"; cases "file opts")
     (auto simp add: drilldownClauses_def makeDrilldownAction_def Let_def)

text \<open>The six cases of the amended claim C7 at concrete options.\<close>

theorem drilldown_clauses_witness:
  "join '' '' (drilldownClauses \<lparr>repo = Some ''github.com/a/b'', revision = Some ''v1'', file = Some ''a.go''\<rparr>)
     = ''r:^github'' @ [CHR 0x5C] @ ''.com/a/b$@v1 f:a'' @ [CHR 0x5C] @ ''.go''
   \<and> join '' '' (drilldownClauses \<lparr>repo = Some ''github.com/a/b'', revision = Some ''v1'', file = None\<rparr>)
     = ''r:^github'' @ [CHR 0x5C] @ ''.com/a/b$@v1''
   \<and> join '' '' (drilldownClauses \<lparr>repo = Some ''github.com/a/b'', revision = None, file = Some ''a.go''\<rparr>)
     = ''r:^github'' @ [CHR 0x5C] @ ''.com/a/b$ f:a'' @ [CHR 0x5C] @ ''.go''
   \<and> join '' '' (drilldownClauses \<lparr>repo = Some ''github.com/a/b'', revision = Some [], file = None\<rparr>)
     = ''r:^github'' @ [CHR 0x5C] @ ''.com/a/b$''
   \<and> join '' '' (drilldownClauses \<lparr>repo = None, revision = Some ''v1'', file = Some ''a.go''\<rparr>)
     = ''f:a'' @ [CHR 0x5C] @ ''.go''
   \<and> join '' '' (drilldownClauses \<lparr>repo = Some [], revision = None, file = Some []\<rparr>) = []"
  using
    drilldown_clauses [of "\<lparr>repo = Some ''github.com/a/b'', revision = Some ''v1'', file = Some ''a.go''\<rparr>"
      "''github.com/a/b''" "''v1''" "''a.go''"]
    drilldown_clauses [of "\<lparr>repo = Some ''github.com/a/b'', revision = Some ''v1'', file = None\<rparr>"
      "''github.com/a/b''" "''v1''" "[]"]
    drilldown_clauses [of "\<lparr>repo = Some ''github.com/a/b'', revision = None, file = Some ''a.go''\<rparr>"
      "''github.com/a/b''" "[]" "''a.go''"]
    drilldown_clauses [of "\<lparr>repo = Some ''github.com/a/b'', revision = Some [], file = None\<rparr>"
      "''github.com/a/b''" "[]" "[]"]
    drilldown_clauses [of "\<lparr>repo = None, revision = Some ''v1'', file = Some ''a.go''\<rparr>"
      "[]" "[]" "''a.go''"]
    drilldown_clauses [of "\<lparr>repo = Some [], revision = None, file = Some []\<rparr>" "[]" "[]" "[]"]
  by (simp add: regexpRe_def backslash_def)

section \<open>Result items: properties\<close>

lemma show_nat_digit: "n < 10 \<Longrightarrow> show_nat n = [digit_char n]"
  by (simp add: show_nat.simps)

text \<open>
  Claim C3, as stated, at a repo match whose star count is present and is 0: the count
  renders as \<open>0\<close>, but \<open>if (match.repoStars)\<close> is false for 0, so the accessory text is empty
  and no accessory is listed.
\<close>

theorem SearchResultItem_zero_stars_counterexample:
  "repoStars (RepoMatch ''github.com/a/b'' (Some 0) None False False False None) = Some 0
   \<and> show_nat 0 = ''0''
   \<and> text (accessoryOf (RepoMatch ''github.com/a/b'' (Some 0) None False False False None)) = []
   \<and> text (accessoryOf (RepoMatch ''github.com/a/b'' (Some 0) None False False False None)) \<noteq> show_nat 0
   \<and> accessories (SearchResultItem (RepoMatch ''github.com/a/b'' (Some 0) None False False False None)) = []"
  by (simp add: show_nat_digit digit_char_def)

text \<open>
  Claim C3, amended. \<open>SearchResultItem\<close> has one case for each of the five match types. Repo:
  the title is the repository name, the subtitle the description or empty, the accessory the
  star count when it is present and not 0 and none otherwise, and the icon is the archived
  one when archived, else the fork one when a fork. Commit: the title is the message and the
  subtitle the author date as it is. Path: the title is the path and the subtitle is empty.
  Content: the title is the trimmed lines joined by \<open>" ... "\<close> and the subtitle the path.
  Symbol: the title is the symbol names joined by \<open>", "\<close> and the subtitle the path.
\<close>

theorem SearchResultItem_summary:
  "ResultItem.title (SearchResultItem (RepoMatch rp stars d fk ar pr br)) = rp
   \<and> subtitle (SearchResultItem (RepoMatch rp stars d fk ar pr br)) =
        (case d of None \<Rightarrow> [] | Some t \<Rightarrow> t)
   \<and> accessories (SearchResultItem (RepoMatch rp stars d fk ar pr br)) =
        (case stars of
           None \<Rightarrow> []
         | Some n \<Rightarrow> if n = 0 then [] else [\<lparr>text = show_nat n, icon = Some Star\<rparr>])
   \<and> itemIcon (SearchResultItem (RepoMatch rp stars d fk ar pr br)) =
        (if ar then XmarkCircle else if fk then Circle else Dot)
   \<and> ResultItem.title (SearchResultItem (CommitMatch rp stars msg an ad oi)) = msg
   \<and> subtitle (SearchResultItem (CommitMatch rp stars msg an ad oi)) = ad
   \<and> ResultItem.title (SearchResultItem (PathMatch rp stars pa co)) = pa
   \<and> subtitle (SearchResultItem (PathMatch rp stars pa co)) = []
   \<and> ResultItem.title (SearchResultItem (ContentMatch rp stars pa ls)) =
        join '' ... '' (map (\<lambda>l. trim (line l)) ls)
   \<and> subtitle (SearchResultItem (ContentMatch rp stars pa ls)) = pa
   \<and> ResultItem.title (SearchResultItem (SymbolMatch rp stars pa sy)) = join '', '' (map name sy)
   \<and> subtitle (SearchResultItem (SymbolMatch rp stars pa sy)) = pa"
  by (simp add: Let_def split: option.splits)

text \<open>
  The amended claim C3 at an archived fork with 42 stars, at a content match with two lines
  and at a symbol match with two symbols.
\<close>

theorem SearchResultItem_summary_witness:
  "accessories (SearchResultItem
      (RepoMatch ''github.com/a/b'' (Some 42) (Some ''a repo'') True True False None))
     = [\<lparr>text = ''42'', icon = Some Star\<rparr>]
   \<and> itemIcon (SearchResultItem
      (RepoMatch ''github.com/a/b'' (Some 42) (Some ''a repo'') True True False None))
     = XmarkCircle
   \<and> ResultItem.title (SearchResultItem (ContentMatch ''github.com/a/b'' None ''a.go''
        [\<lparr>line = ''  foo '', lineNumber = 3\<rparr>, \<lparr>line = [CHR 0x09] @ ''bar'', lineNumber = 7\<rparr>]))
     = ''foo ... bar''
   \<and> ResultItem.title (SearchResultItem (SymbolMatch ''github.com/a/b'' None ''a.go''
        [\<lparr>name = ''f'', containerName = ''p'', kind = ''FUNCTION'',
          url = \<lparr>base = ''https://h/x'', searchParams = [], hash = []\<rparr>\<rparr>,
         \<lparr>name = ''g'', containerName = ''p'', kind = ''FUNCTION'',
          url = \<lparr>base = ''https://h/y'', searchParams = [], hash = []\<rparr>\<rparr>]))
     = ''f, g''"
  using
    SearchResultItem_summary [of "''github.com/a/b''" "Some 42" "Some ''a repo''" True True False None]
    SearchResultItem_summary [where rp = "''github.com/a/b''" and stars = None and pa = "''a.go''"
      and ls = "[\<lparr>line = ''  foo '', lineNumber = 3\<rparr>, \<lparr>line = [CHR 0x09] @ ''bar'', lineNumber = 7\<rparr>]"
      and sy = "[\<lparr>name = ''f'', containerName = ''p'', kind = ''FUNCTION'',
                  url = \<lparr>base = ''https://h/x'', searchParams = [], hash = []\<rparr>\<rparr>,
                 \<lparr>name = ''g'', containerName = ''p'', kind = ''FUNCTION'',
                  url = \<lparr>base = ''https://h/y'', searchParams = [], hash = []\<rparr>\<rparr>]"]
  by (simp add: show_nat.simps digit_char_def trim_def is_js_space_def)

section \<open>Multi result view: properties\<close>

lemma MultiResultView_targets:
  "MultiResultView u (ContentMatch rp stars pa ls) =
     Some (map (\<lambda>l. \<lparr>itemTitle = line l, target = urlWithLineNumber u (lineNumber l)\<rparr>) ls)
   \<and> MultiResultView u (SymbolMatch rp stars pa sy) =
     Some (map (\<lambda>s. \<lparr>itemTitle = name s, target = SymbolInfo.url s\<rparr>) sy)"
  by simp

lemma urlWithLineNumber_utm:
  "searchParams (urlWithLineNumber
      \<lparr>base = ''https://sourcegraph.com/github.com/a/b/-/blob/main.go'',
       searchParams = [(''utm_source'', ''raycast'')], hash = []\<rparr> 5)
     = [(''L5'', []), (''utm_source'', ''raycast'')]"
  by (simp add: urlWithLineNumber_def params_sort_def show_nat.simps digit_char_def)

text \<open>
  Claim C4. The URL of a content sub-item is the parent URL with the parameter \<open>L\<close> and the
  line number set and all parameters sorted by name. The source says that the anchor needs
  to be the first parameter and that the sort achieves it for the parameters it expects. For
  the parent URL \<open>https://sourcegraph.com/github.com/a/b/-/blob/main.go?A=1\<close> and line 5, the
  parameter \<open>A\<close> sorts before \<open>L5\<close>, and the anchor comes second.
\<close>

theorem urlWithLineNumber_anchor_not_first:
  "searchParams (urlWithLineNumber
      \<lparr>base = ''https://sourcegraph.com/github.com/a/b/-/blob/main.go'',
       searchParams = [(''A'', ''1'')], hash = []\<rparr> 5)
     = [(''A'', ''1''), (''L5'', [])]"
  by (simp add: urlWithLineNumber_def params_sort_def show_nat.simps digit_char_def)

section \<open>Detail view: properties\<close>

lemma numberToString_whole: "numberToString fmt (rat_of_nat (1024 * k) / 1024) = show_nat k"
  by (simp add: numberToString_def)

lemma blobSizeKB_over_50: "(50 < rat_of_nat n / 1024) = (50 * 1024 < n)"
proof -
  have "(50 < rat_of_nat n / 1024) = (rat_of_nat (50 * 1024) < rat_of_nat n)"
    by (simp add: less_divide_eq)
  also have "\<dots> = (50 * 1024 < n)"
    by (rule of_nat_less_iff)
  finally show ?thesis .
qed

text \<open>
  Claim C9. \<open>renderBlob\<close>: an absent blob gives the notice \<open>Blob not found\<close>; a binary blob
  gives the binary notice whatever its content; a blob that is not binary and has content
  gives, above 50KB (51200 bytes), the notice \<open>File too large to render\<close> with the size in
  KB, which for a whole number \<open>k\<close> of KB is \<open>k\<close> in decimal, and otherwise the content as it
  is when the path ends in \<open>.md\<close> and the content in a code block when it does not; a blob
  that is not binary and has no content gives the notice \<open>No content found\<close>.
\<close>

theorem renderBlob_spec:
  "renderBlob md fmt None = quoteBlock md ''Blob not found''
   \<and> (binary b \<longrightarrow>
        renderBlob md fmt (Some b) =
          quoteBlock md ''File preview is not yet supported for binary files.'')
   \<and> (\<not> binary b \<and> content b \<noteq> [] \<and> 50 * 1024 < byteSize b \<longrightarrow>
        renderBlob md fmt (Some b) =
          quoteBlock md (''File too large to render (''
            @ numberToString fmt (rat_of_nat (byteSize b) / 1024) @ ''KB)''))
   \<and> (\<not> binary b \<and> content b \<noteq> [] \<and> 50 < k \<and> byteSize b = 1024 * k \<longrightarrow>
        renderBlob md fmt (Some b) =
          quoteBlock md (''File too large to render ('' @ show_nat k @ ''KB)''))
   \<and> (\<not> binary b \<and> content b \<noteq> [] \<and> byteSize b \<le> 50 * 1024
          \<and> endsWith (BlobContents.path b) ''.md'' \<longrightarrow>
        renderBlob md fmt (Some b) = content b)
   \<and> (\<not> binary b \<and> content b \<noteq> [] \<and> byteSize b \<le> 50 * 1024
          \<and> \<not> endsWith (BlobContents.path b) ''.md'' \<longrightarrow>
        renderBlob md fmt (Some b) = codeBlock md (content b))
   \<and> (\<not> binary b \<and> content b = [] \<longrightarrow>
        renderBlob md fmt (Some b) = quoteBlock md ''No content found'')"
proof -
  have whole: "byteSize b = 1024 * k \<Longrightarrow>
      numberToString fmt (rat_of_nat (byteSize b) / 1024) = show_nat k"
    using numberToString_whole [of fmt k] by simp
  show ?thesis
    unfolding renderBlob_def Let_def blobSizeKB_over_50
    using whole by auto
qed

text \<open>
  Claim C9 at a binary file, a text file of 60KB (the notice holds \<open>60\<close>), a small Markdown
  file, a small source file and an empty file.
\<close>

theorem renderBlob_spec_witness:
  "renderBlob sampleMarkdown (\<lambda>q. [])
      (Some \<lparr>path = ''a.png'', content = ''x'', binary = True, byteSize = 1\<rparr>)
     = ''> File preview is not yet supported for binary files.''
   \<and> renderBlob sampleMarkdown (\<lambda>q. [])
      (Some \<lparr>path = ''big.txt'', content = ''x'', binary = False, byteSize = 61440\<rparr>)
     = ''> File too large to render (60KB)''
   \<and> renderBlob sampleMarkdown (\<lambda>q. [])
      (Some \<lparr>path = ''README.md'', content = ''# hi'', binary = False, byteSize = 4\<rparr>)
     = ''# hi''
   \<and> renderBlob sampleMarkdown (\<lambda>q. [])
      (Some \<lparr>path = ''a.go'', content = ''x'', binary = False, byteSize = 1\<rparr>)
     = ''```'' @ [CHR 0x0A] @ ''x'' @ [CHR 0x0A] @ ''```''
   \<and> renderBlob sampleMarkdown (\<lambda>q. [])
      (Some \<lparr>path = ''a.go'', content = [], binary = False, byteSize = 0\<rparr>)
     = ''> No content found''"
  using
    renderBlob_spec [of sampleMarkdown "\<lambda>q. []"
      "\<lparr>path = ''a.png'', content = ''x'', binary = True, byteSize = 1\<rparr>" 0]
    renderBlob_spec [of sampleMarkdown "\<lambda>q. []"
      "\<lparr>path = ''big.txt'', content = ''x'', binary = False, byteSize = 61440\<rparr>" 60]
    renderBlob_spec [of sampleMarkdown "\<lambda>q. []"
      "\<lparr>path = ''README.md'', content = ''# hi'', binary = False, byteSize = 4\<rparr>" 0]
    renderBlob_spec [of sampleMarkdown "\<lambda>q. []"
      "\<lparr>path = ''a.go'', content = ''x'', binary = False, byteSize = 1\<rparr>" 0]
    renderBlob_spec [of sampleMarkdown "\<lambda>q. []"
      "\<lparr>path = ''a.go'', content = [], binary = False, byteSize = 0\<rparr>" 0]
  by (simp add: sampleMarkdown_def endsWith_def newline_def numberToString_def
        show_nat.simps digit_char_def)

lemma ResultView_path_fetch_error_inline:
  "ResultView md fmt \<lparr>url = u, match = PathMatch rp stars pa co\<rparr>
      \<lparr>called = True, data = None, error = Some e\<rparr>
     = DetailView (bold md rp @ [newline, newline] @ codeBlock md pa @ separator
         @ quoteBlock md (''Failed to fetch file: '' @ e)) None"
  by simp

text \<open>
  Claim C6. For a path match, a failed fetch puts \<open>Failed to fetch file\<close> and the error into
  the markdown. The repo case has no branch for the error: after a failed fetch of the
  README, the markdown is the title and the description only, whatever the error is.
\<close>

theorem ResultView_repo_fetch_error_dropped:
  "ResultView md fmt \<lparr>url = u, match = RepoMatch rp stars d fk ar pr br\<rparr>
      \<lparr>called = True, data = None, error = Some e\<rparr>
     = DetailView (bold md rp @ [newline, newline] @ (case d of None \<Rightarrow> [] | Some t \<Rightarrow> t)) None"
  by simp

section \<open>Search session: properties\<close>

text \<open>
  Claim C5. When the promise of \<open>performSearch\<close> is rejected, \<open>isLoading\<close> becomes false, a
  notification with the text of the error is shown, and the results and suggestions stay as
  they are.
\<close>

theorem search_failure:
  "isLoading (state (deliver s (Rejected g e))) = False
   \<and> results (state (deliver s (Rejected g e))) = results (state s)
   \<and> suggestions (state (deliver s (Rejected g e))) = suggestions (state s)
   \<and> toasts (deliver s (Rejected g e)) =
       toasts s @ [ExpandableErrorToast ''Unexpected error'' ''Search failed'' e]"
  by (simp add: notLoading_def)

text \<open>
  Claim C10. Each event changes its own field of the search state only: \<open>onResults\<close> leaves
  suggestions, summary and \<open>isLoading\<close> alone; \<open>onSuggestions\<close> leaves results, summary and
  \<open>isLoading\<close> alone; \<open>onProgress\<close> leaves results, suggestions and \<open>isLoading\<close> alone; the
  completion and the failure of the stream leave results, suggestions and summary alone;
  \<open>onAlert\<close> leaves the whole search state alone.
\<close>

theorem event_frames:
  "suggestions (state (deliver s (OnResults g batch))) = suggestions (state s)
   \<and> summary (state (deliver s (OnResults g batch))) = summary (state s)
   \<and> isLoading (state (deliver s (OnResults g batch))) = isLoading (state s)
   \<and> results (state (deliver s (OnSuggestions g sugg pushToTop))) = results (state s)
   \<and> summary (state (deliver s (OnSuggestions g sugg pushToTop))) = summary (state s)
   \<and> isLoading (state (deliver s (OnSuggestions g sugg pushToTop))) = isLoading (state s)
   \<and> results (state (deliver s (OnProgress g progress))) = results (state s)
   \<and> suggestions (state (deliver s (OnProgress g progress))) = suggestions (state s)
   \<and> isLoading (state (deliver s (OnProgress g progress))) = isLoading (state s)
   \<and> results (state (deliver s (Resolved g))) = results (state s)
   \<and> suggestions (state (deliver s (Resolved g))) = suggestions (state s)
   \<and> summary (state (deliver s (Resolved g))) = summary (state s)
   \<and> results (state (deliver s (Rejected g e))) = results (state s)
   \<and> suggestions (state (deliver s (Rejected g e))) = suggestions (state s)
   \<and> summary (state (deliver s (Rejected g e))) = summary (state s)
   \<and> state (deliver s (OnAlert g a)) = state s"
  by (simp add: onResults_def onSuggestions_def onProgress_def notLoading_def)

subsection \<open>Superseded generations\<close>

lemma run_Nil: "run s [] = s"
  by (simp add: run_def)

lemma run_snoc: "run s (evs @ [e]) = deliver (run s evs) e"
  by (simp add: run_def)

lemma honours_abort_snoc:
  "honours_abort s (evs @ [e]) =
     (honours_abort s evs
      \<and> (case callback_of e of None \<Rightarrow> True | Some g \<Rightarrow> live (run s evs) g))"
proof (induction evs arbitrary: s)
  case Nil
  show ?case by (simp add: run_def split: option.splits)
next
  case (Cons a evs)
  show ?case by (simp add: Cons.IH run_def split: option.splits)
qed

lemma resetState_fresh: "resetState st = fresh"
  by (simp add: resetState_def fresh_def)

lemma search_fields:
  "state (search t p s) = fresh"
  "cancelRef (search t p s) = Some (controllers s)"
  "controllers (search t p s) = Suc (controllers s)"
  "aborted (search t p s) = (case cancelRef s of None \<Rightarrow> aborted s | Some c \<Rightarrow> c # aborted s)"
  by (simp_all add: search_def Let_def resetState_fresh split: option.splits)

lemma session_inv_search:
  assumes "session_inv s"
  shows "session_inv (search t p s)"
proof -
  from assms have cur: "\<And>g. live s g = (cancelRef s = Some g)"
    and old: "\<And>g. g \<in> set (aborted s) \<Longrightarrow> g < controllers s"
    by (simp_all add: session_inv_def)
  have "live (search t p s) g = (g = controllers s)" for g
  proof (cases "cancelRef s")
    case None
    with cur [of g] old [of "controllers s"] show ?thesis
      by (auto simp add: live_def search_fields)
  next
    case (Some c)
    with cur [of g] cur [of c] old [of "controllers s"] show ?thesis
      by (auto simp add: live_def search_fields)
  qed
  moreover have "g \<in> set (aborted (search t p s)) \<Longrightarrow> g < Suc (controllers s)" for g
  proof (cases "cancelRef s")
    case None
    assume "g \<in> set (aborted (search t p s))"
    with None old [of g] show ?thesis by (simp add: search_fields)
  next
    case (Some c)
    assume "g \<in> set (aborted (search t p s))"
    with Some old [of g] cur [of c] show ?thesis
      by (auto simp add: search_fields live_def)
  qed
  ultimately show ?thesis
    by (auto simp add: session_inv_def search_fields)
qed

lemma deliver_tagged:
  assumes "generation_of e = Some g"
  shows "cancelRef (deliver s e) = cancelRef s"
    and "controllers (deliver s e) = controllers s"
    and "aborted (deliver s e) = aborted s"
    and "state (deliver s e) = fold_event (state s) e"
  using assms by (cases e; simp)+

lemma session_inv_tagged:
  assumes "session_inv s" and "generation_of e = Some g"
  shows "session_inv (deliver s e)"
  using assms by (simp add: session_inv_def live_def deliver_tagged [of e g])

lemma callback_generation: "callback_of e = Some g \<Longrightarrow> generation_of e = Some g"
  by (cases e) simp_all

lemma earlier_filter: "earlier evs n \<Longrightarrow> filter (\<lambda>e. callback_of e = Some n) evs = []"
  by (auto simp add: earlier_def filter_empty_conv)

lemma same_content_refl: "same_content a a"
  by (simp add: same_content_def)

lemma same_content_fold_event:
  "same_content a b \<Longrightarrow> same_content (fold_event a e) (fold_event b e)"
  by (cases e)
     (simp_all add: same_content_def resetState_def onResults_def onSuggestions_def
        onProgress_def notLoading_def)

text \<open>The settling of a promise leaves results, suggestions and summary alone.\<close>

lemma same_content_outcome:
  "generation_of e = Some g \<Longrightarrow> callback_of e = None \<Longrightarrow> same_content (fold_event a e) a"
  by (cases e) (simp_all add: same_content_def notLoading_def)

lemma same_content_filters:
  "same_content a b \<Longrightarrow>
     same_content (foldl fold_event a (filter (\<lambda>e. generation_of e = Some g) evs))
       (foldl fold_event b (filter (\<lambda>e. callback_of e = Some g) evs))"
proof (induction evs arbitrary: a b)
  case Nil
  then show ?case by simp
next
  case (Cons e evs)
  show ?case
  proof (cases "callback_of e = Some g")
    case True
    with Cons.prems show ?thesis
      by (simp add: callback_generation Cons.IH same_content_fold_event)
  next
    case no_callback: False
    show ?thesis
    proof (cases "generation_of e = Some g")
      case True
      with no_callback have "callback_of e = None"
        by (cases e) simp_all
      with True Cons.prems have "same_content (fold_event a e) b"
        using same_content_outcome [of e g a] by (simp add: same_content_def)
      with True no_callback show ?thesis
        by (simp add: Cons.IH)
    next
      case False
      with no_callback Cons.prems show ?thesis
        by (simp add: Cons.IH)
    qed
  qed
qed

lemma trace_facts:
  "honours_abort initial evs \<Longrightarrow>
     session_inv (run initial evs) \<and> earlier evs (controllers (run initial evs))
     \<and> (\<forall>g. cancelRef (run initial evs) = Some g \<longrightarrow>
          Suc g = controllers (run initial evs)
          \<and> same_content (state (run initial evs))
              (foldl fold_event fresh (filter (\<lambda>e. callback_of e = Some g) evs)))"
proof (induction evs rule: rev_induct)
  case Nil
  show ?case
    by (simp add: run_Nil initial_def session_inv_def live_def earlier_def)
next
  case (snoc e evs)
  from snoc.prems have hon: "honours_abort initial evs"
    and ok: "case callback_of e of None \<Rightarrow> True | Some g \<Rightarrow> live (run initial evs) g"
    by (simp_all add: honours_abort_snoc)
  let ?s = "run initial evs"
  from snoc.IH [OF hon] have inv: "session_inv ?s"
    and ear: "earlier evs (controllers ?s)"
    and st: "\<And>g. cancelRef ?s = Some g \<Longrightarrow>
          Suc g = controllers ?s
          \<and> same_content (state ?s)
              (foldl fold_event fresh (filter (\<lambda>e. callback_of e = Some g) evs))"
    by simp_all
  show ?case
  proof (cases "generation_of e")
    case None
    then obtain t p where e: "e = Search t p"
      by (cases e) simp_all
    have "session_inv (run initial (evs @ [e]))"
      using inv by (simp add: run_snoc e session_inv_search)
    moreover have "earlier (evs @ [e]) (controllers (run initial (evs @ [e])))"
      using ear by (auto simp add: run_snoc e search_fields earlier_def)
    moreover have "same_content (state (run initial (evs @ [e])))
        (foldl fold_event fresh (filter (\<lambda>x. callback_of x = Some (controllers ?s)) (evs @ [e])))"
      using earlier_filter [OF ear] by (simp add: run_snoc e search_fields same_content_refl)
    ultimately show ?thesis
      by (simp add: run_snoc e search_fields)
  next
    case (Some g')
    have inv': "session_inv (run initial (evs @ [e]))"
      using inv Some by (simp add: run_snoc session_inv_tagged)
    show ?thesis
    proof (cases "callback_of e")
      case None
      have "earlier (evs @ [e]) (controllers (run initial (evs @ [e])))"
        using ear None by (auto simp add: run_snoc deliver_tagged [OF Some] earlier_def)
      moreover have "same_content (state (run initial (evs @ [e])))
          (foldl fold_event fresh (filter (\<lambda>x. callback_of x = Some g) (evs @ [e])))"
        if cur: "cancelRef ?s = Some g" for g
      proof -
        have "same_content (fold_event (state ?s) e) (state ?s)"
          using same_content_outcome [OF Some None] .
        with st [OF cur] None show ?thesis
          by (simp add: run_snoc deliver_tagged [OF Some] same_content_def)
      qed
      ultimately show ?thesis
        using inv' st by (simp add: run_snoc deliver_tagged [OF Some])
    next
      case (Some g)
      with ok have lv: "live ?s g" by simp
      with inv have cur: "cancelRef ?s = Some g"
        by (simp add: session_inv_def)
      from Some have gen: "generation_of e = Some g"
        by (rule callback_generation)
      have "earlier (evs @ [e]) (controllers (run initial (evs @ [e])))"
        using ear lv Some by (auto simp add: run_snoc deliver_tagged [OF gen] earlier_def live_def)
      moreover have "same_content (state (run initial (evs @ [e])))
          (foldl fold_event fresh (filter (\<lambda>x. callback_of x = Some g) (evs @ [e])))"
        using st [OF cur] Some
        by (simp add: run_snoc deliver_tagged [OF gen] same_content_fold_event)
      ultimately show ?thesis
        using inv' cur st [OF cur] by (simp add: run_snoc deliver_tagged [OF gen])
    qed
  qed
qed

text \<open>
  Claim C1, as stated. \<open>search("foo", "literal")\<close> and then \<open>search("bar", "regexp")\<close>; the
  transport then delivers a batch of the first generation, whose controller is aborted, and
  a batch of the second. No callback checks the generation: both batches are in the results.
  And when, after the two calls, the promise of the first generation is fulfilled, the state
  stops loading although the second generation has delivered nothing.
\<close>

theorem stale_results_counterexample:
  "cancelRef (run initial
      [Search ''foo'' literal, Search ''bar'' regexp,
       OnResults 0 [foo_result], OnResults 1 [bar_result]]) = Some 1
   \<and> 0 \<in> set (aborted (run initial
      [Search ''foo'' literal, Search ''bar'' regexp,
       OnResults 0 [foo_result], OnResults 1 [bar_result]]))
   \<and> results (state (run initial
      [Search ''foo'' literal, Search ''bar'' regexp,
       OnResults 0 [foo_result], OnResults 1 [bar_result]]))
      = [foo_result, bar_result]
   \<and> isLoading (state (run initial [Search ''foo'' literal, Search ''bar'' regexp]))
   \<and> \<not> isLoading (state (run initial [Search ''foo'' literal, Search ''bar'' regexp, Resolved 0]))"
  by (simp add: run_def initial_def search_def Let_def resetState_def onResults_def notLoading_def)

text \<open>
  Claim C1, amended. \<open>search\<close> aborts the controller of the previous generation and resets
  the state, and the session folds every event that is delivered. For every sequence of
  calls of \<open>search\<close>, callbacks and settled promises in which the transport invokes no
  callback of a generation whose controller is aborted, the results, the suggestions and the
  summary of the final state hold the events of the most recent generation only: they are
  those of the reset state with the events of that generation folded in, in the order of
  their arrival. The promise of a superseded generation may settle at any time; it changes
  \<open>isLoading\<close> only.
\<close>

theorem latest_generation_only:
  assumes "honours_abort initial evs" and "cancelRef (run initial evs) = Some g"
  shows "Suc g = controllers (run initial evs)
    \<and> results (state (run initial evs)) =
        results (foldl fold_event
          \<lparr>results = [], suggestions = [], summary = None, isLoading = True\<rparr>
          (filter (\<lambda>e. generation_of e = Some g) evs))
    \<and> suggestions (state (run initial evs)) =
        suggestions (foldl fold_event
          \<lparr>results = [], suggestions = [], summary = None, isLoading = True\<rparr>
          (filter (\<lambda>e. generation_of e = Some g) evs))
    \<and> summary (state (run initial evs)) =
        summary (foldl fold_event
          \<lparr>results = [], suggestions = [], summary = None, isLoading = True\<rparr>
          (filter (\<lambda>e. generation_of e = Some g) evs))"
proof -
  from trace_facts [OF assms(1)] assms(2)
  have gen: "Suc g = controllers (run initial evs)"
    and cb: "same_content (state (run initial evs))
        (foldl fold_event fresh (filter (\<lambda>e. callback_of e = Some g) evs))"
    by simp_all
  have "same_content (foldl fold_event fresh (filter (\<lambda>e. generation_of e = Some g) evs))
      (foldl fold_event fresh (filter (\<lambda>e. callback_of e = Some g) evs))"
    by (rule same_content_filters [OF same_content_refl])
  with cb have "same_content (state (run initial evs))
      (foldl fold_event fresh (filter (\<lambda>e. generation_of e = Some g) evs))"
    by (simp add: same_content_def)
  with gen show ?thesis
    by (simp add: same_content_def fresh_def)
qed

text \<open>
  The amended claim C1 at two searches where the first generation delivers a batch while
  its controller is live, its promise is fulfilled after the second search, and the second
  generation then delivers a batch and a progress event: the final results are the second
  batch, and the summary is that of the second generation.
\<close>

theorem latest_generation_only_witness:
  "honours_abort initial
      [Search ''foo'' literal, OnResults 0 [foo_result], Search ''bar'' regexp, Resolved 0,
       OnResults 1 [bar_result], OnProgress 1 \<lparr>matchCount = 1, duration = ''5ms''\<rparr>]
   \<and> cancelRef (run initial
      [Search ''foo'' literal, OnResults 0 [foo_result], Search ''bar'' regexp, Resolved 0,
       OnResults 1 [bar_result], OnProgress 1 \<lparr>matchCount = 1, duration = ''5ms''\<rparr>]) = Some 1
   \<and> results (state (run initial
      [Search ''foo'' literal, OnResults 0 [foo_result], Search ''bar'' regexp, Resolved 0,
       OnResults 1 [bar_result], OnProgress 1 \<lparr>matchCount = 1, duration = ''5ms''\<rparr>]))
      = [bar_result]
   \<and> suggestions (state (run initial
      [Search ''foo'' literal, OnResults 0 [foo_result], Search ''bar'' regexp, Resolved 0,
       OnResults 1 [bar_result], OnProgress 1 \<lparr>matchCount = 1, duration = ''5ms''\<rparr>]))
      = []
   \<and> summary (state (run initial
      [Search ''foo'' literal, OnResults 0 [foo_result], Search ''bar'' regexp, Resolved 0,
       OnResults 1 [bar_result], OnProgress 1 \<lparr>matchCount = 1, duration = ''5ms''\<rparr>]))
      = Some ''1 results in 5ms''"
proof -
  let ?evs = "[Search ''foo'' literal, OnResults 0 [foo_result], Search ''bar'' regexp, Resolved 0,
       OnResults 1 [bar_result], OnProgress 1 \<lparr>matchCount = 1, duration = ''5ms''\<rparr>]"
  have h: "honours_abort initial ?evs"
    by (simp add: initial_def search_def live_def Let_def)
  have c: "cancelRef (run initial ?evs) = Some 1"
    by (simp add: run_def initial_def search_def Let_def)
  from latest_generation_only [OF h c] h c show ?thesis
    by (simp add: onResults_def onProgress_def show_nat.simps digit_char_def)
qed

text \<open>
  Claim C2, as stated. After \<open>search("foo", "literal")\<close> and \<open>search("bar", "regexp")\<close> the
  first controller is aborted and the state is loading. When the promise of the first
  generation is then fulfilled or rejected, \<open>isLoading\<close> becomes false, and the rejection
  shows a notification.
\<close>

theorem superseded_outcome_counterexample:
  "0 \<in> set (aborted (run initial [Search ''foo'' literal, Search ''bar'' regexp]))
   \<and> isLoading (state (run initial [Search ''foo'' literal, Search ''bar'' regexp]))
   \<and> \<not> isLoading (state (deliver (run initial [Search ''foo'' literal, Search ''bar'' regexp])
          (Resolved 0)))
   \<and> \<not> isLoading (state (deliver (run initial [Search ''foo'' literal, Search ''bar'' regexp])
          (Rejected 0 ''AbortError'')))
   \<and> toasts (run initial [Search ''foo'' literal, Search ''bar'' regexp]) = []
   \<and> toasts (deliver (run initial [Search ''foo'' literal, Search ''bar'' regexp])
        (Rejected 0 ''AbortError''))
       = [ExpandableErrorToast ''Unexpected error'' ''Search failed'' ''AbortError'']"
  by (simp add: run_def initial_def search_def Let_def resetState_def notLoading_def)

text \<open>
  Claim C2, amended. The outcome of a generation whose controller is aborted is handled as
  any other: when its promise is fulfilled, \<open>isLoading\<close> becomes false and no notification
  is shown; when it is rejected, \<open>isLoading\<close> becomes false and a notification with the text
  of the error is shown. Results, suggestions and summary stay as they are in both cases.
\<close>

theorem superseded_outcome:
  "g \<in> set (aborted s) \<Longrightarrow>
     state (deliver s (Resolved g)) = (state s)\<lparr>isLoading := False\<rparr>
     \<and> toasts (deliver s (Resolved g)) = toasts s
     \<and> state (deliver s (Rejected g e)) = (state s)\<lparr>isLoading := False\<rparr>
     \<and> toasts (deliver s (Rejected g e)) =
         toasts s @ [ExpandableErrorToast ''Unexpected error'' ''Search failed'' e]"
  by (simp add: notLoading_def)

text \<open>The amended claim C2 at the first generation after a second search.\<close>

theorem superseded_outcome_witness:
  "0 \<in> set (aborted (run initial [Search ''foo'' literal, Search ''bar'' regexp]))
   \<and> state (deliver (run initial [Search ''foo'' literal, Search ''bar'' regexp]) (Resolved 0))
       = \<lparr>results = [], suggestions = [], summary = None, isLoading = False\<rparr>
   \<and> toasts (deliver (run initial [Search ''foo'' literal, Search ''bar'' regexp]) (Resolved 0)) = []
   \<and> state (deliver (run initial [Search ''foo'' literal, Search ''bar'' regexp])
        (Rejected 0 ''AbortError''))
       = \<lparr>results = [], suggestions = [], summary = None, isLoading = False\<rparr>
   \<and> toasts (deliver (run initial [Search ''foo'' literal, Search ''bar'' regexp])
        (Rejected 0 ''AbortError''))
       = [ExpandableErrorToast ''Unexpected error'' ''Search failed'' ''AbortError'']"
proof -
  let ?s = "run initial [Search ''foo'' literal, Search ''bar'' regexp]"
  have h: "0 \<in> set (aborted ?s)"
    by (simp add: run_def initial_def search_def Let_def)
  have st: "state ?s = \<lparr>results = [], suggestions = [], summary = None, isLoading = True\<rparr>"
    and ts: "toasts ?s = []"
    by (simp_all add: run_def initial_def search_def Let_def resetState_def)
  from superseded_outcome [OF h, of "''AbortError''"] h st ts show ?thesis
    by simp
qed

end
